theory Spec2Isabelle
  imports Main
begin

section \<open>Python values and the builtins the controller applies to them\<close>

text \<open>
  The controller of \<^verbatim>\<open>src/python/ethaudio/api.py\<close> receives commands decoded from JSON
  and passes their members on unchecked, so the arguments of its operations are
  dynamically typed. \<open>pyval\<close> is the type of those values: \<^verbatim>\<open>None\<close>, booleans, integers,
  strings, lists and dictionaries with string keys. Floating-point numbers are left out.
\<close>

datatype pyval =
    PNone
  | PBool bool
  | PInt int
  | PStr string
  | PList "pyval list"
  | PDict "(string \<times> pyval) list"

text \<open>
  Two builtins are not spelled out and are taken as parameters: what \<^verbatim>\<open>int(s)\<close> gives on
  a string (\<open>None\<close> when it raises \<^verbatim>\<open>ValueError\<close>), and the printed form \<^verbatim>\<open>str(x)\<close> of an
  object that is not a string. Every theorem below holds for all choices of them.
\<close>

record builtins =
  int_str :: "string \<Rightarrow> int option"
  str_obj :: "pyval \<Rightarrow> string"

text \<open>The exceptions that the code can raise, each with the value that caused it.\<close>

datatype exn =
    KeyError string
  | TypeError pyval
  | ValueError pyval
  | NotInOptions pyval "int list"

text \<open>\<^verbatim>\<open>int(i)\<close>: a bool is an int in Python; \<^verbatim>\<open>None\<close>, lists and dicts raise \<^verbatim>\<open>TypeError\<close>.\<close>

fun py_int :: "builtins \<Rightarrow> pyval \<Rightarrow> exn + int" where
  "py_int B PNone = Inl (TypeError PNone)"
| "py_int B (PBool b) = Inr (if b then 1 else 0)"
| "py_int B (PInt i) = Inr i"
| "py_int B (PStr s) = (case int_str B s of None \<Rightarrow> Inl (ValueError (PStr s)) | Some i \<Rightarrow> Inr i)"
| "py_int B (PList xs) = Inl (TypeError (PList xs))"
| "py_int B (PDict kvs) = Inl (TypeError (PDict kvs))"

text \<open>\<^verbatim>\<open>bool(x)\<close>: truthiness.\<close>

fun py_bool :: "pyval \<Rightarrow> bool" where
  "py_bool PNone = False"
| "py_bool (PBool b) = b"
| "py_bool (PInt i) = (i \<noteq> 0)"
| "py_bool (PStr s) = (s \<noteq> [])"
| "py_bool (PList xs) = (xs \<noteq> [])"
| "py_bool (PDict kvs) = (kvs \<noteq> [])"

text \<open>\<^verbatim>\<open>str(x)\<close>: a string is returned as it is.\<close>

definition py_str :: "builtins \<Rightarrow> pyval \<Rightarrow> string" where
  "py_str B x = (case x of PStr s \<Rightarrow> s | _ \<Rightarrow> str_obj B x)"

text \<open>\<^verbatim>\<open>s['id'] == id\<close> where the stored id is an int: \<^verbatim>\<open>True == 1\<close> and \<^verbatim>\<open>False == 0\<close> hold.\<close>

fun py_eq_int :: "pyval \<Rightarrow> int \<Rightarrow> bool" where
  "py_eq_int (PInt i) n = (i = n)"
| "py_eq_int (PBool b) n = ((if b then 1 else 0) = n)"
| "py_eq_int _ n = False"

section \<open>Helper functions\<close>

text \<open>
  \<^verbatim>\<open>parse_int(i, options)\<close> returns \<^verbatim>\<open>int(i)\<close> when it is one of the options and raises
  \<^verbatim>\<open>ValueError('{} is not in [{}]')\<close> otherwise; an exception of \<^verbatim>\<open>int(i)\<close> itself propagates.
\<close>

definition parse_int :: "builtins \<Rightarrow> pyval \<Rightarrow> int list \<Rightarrow> exn + int" where
  "parse_int B i options =
     (case py_int B i of
        Inl e \<Rightarrow> Inl e
      | Inr n \<Rightarrow> if n \<in> set options then Inr n else Inl (NotInOptions i options))"

text \<open>
  Messages are kept structured, since they embed the printed form of exceptions and
  values: a literal, a literal followed by \<^verbatim>\<open>str(e)\<close>, or a value between two literals.
\<close>

datatype message =
    Text string
  | TextExn string exn
  | TextVal string pyval string

type_synonym reply = "(string \<rightharpoonup> message) option"

definition error :: "message \<Rightarrow> (string \<rightharpoonup> message)" where
  "error msg = [''error'' \<mapsto> msg]"

definition updated_val :: "pyval \<Rightarrow> pyval \<Rightarrow> pyval" where
  "updated_val update val = (if update = PNone then val else update)"

section \<open>Runtimes\<close>

text \<open>
  A runtime is an object with three methods that report success as a bool. The object is
  modelled by its state \<open>'r\<close> and its method table; each method returns the result and the
  state after the call.
\<close>

record 'r runtime =
  rt_set_power :: "'r \<Rightarrow> bool \<Rightarrow> bool \<Rightarrow> bool \<times> 'r"
  rt_set_source :: "'r \<Rightarrow> nat \<Rightarrow> bool \<Rightarrow> bool \<times> 'r"
  rt_set_zone :: "'r \<Rightarrow> nat \<Rightarrow> int \<Rightarrow> bool \<Rightarrow> bool \<Rightarrow> int \<Rightarrow> bool \<Rightarrow> bool \<times> 'r"

text \<open>
  The state of an instance of \<^verbatim>\<open>MockRt\<close> or \<^verbatim>\<open>RpiRt\<close> is its attribute dictionary. Both
  constructors are \<^verbatim>\<open>pass\<close>, so a new instance has no attribute.
\<close>

type_synonym attrs = "string \<rightharpoonup> pyval"

definition MockRt_init :: attrs where
  "MockRt_init = Map.empty"

definition MockRt_set_power :: "attrs \<Rightarrow> bool \<Rightarrow> bool \<Rightarrow> bool \<times> attrs" where
  "MockRt_set_power self audio_on usb_on = (True, self)"

definition MockRt_set_source :: "attrs \<Rightarrow> nat \<Rightarrow> bool \<Rightarrow> bool \<times> attrs" where
  "MockRt_set_source self i dig = (True, self)"

definition MockRt_set_zone ::
  "attrs \<Rightarrow> nat \<Rightarrow> int \<Rightarrow> bool \<Rightarrow> bool \<Rightarrow> int \<Rightarrow> bool \<Rightarrow> bool \<times> attrs" where
  "MockRt_set_zone self i sid m s v d = (True, self)"

definition MockRt :: "attrs runtime" where
  "MockRt = \<lparr> rt_set_power = MockRt_set_power, rt_set_source = MockRt_set_source,
              rt_set_zone = MockRt_set_zone \<rparr>"

definition RpiRt_init :: attrs where
  "RpiRt_init = Map.empty"

definition RpiRt_set_power :: "attrs \<Rightarrow> bool \<Rightarrow> bool \<Rightarrow> bool \<times> attrs" where
  "RpiRt_set_power self audio_on usb_on = (False, self)"

definition RpiRt_set_source :: "attrs \<Rightarrow> nat \<Rightarrow> bool \<Rightarrow> bool \<times> attrs" where
  "RpiRt_set_source self i dig = (False, self)"

definition RpiRt_set_zone ::
  "attrs \<Rightarrow> nat \<Rightarrow> int \<Rightarrow> bool \<Rightarrow> bool \<Rightarrow> int \<Rightarrow> bool \<Rightarrow> bool \<times> attrs" where
  "RpiRt_set_zone self i sid m s v d = (False, self)"

definition RpiRt :: "attrs runtime" where
  "RpiRt = \<lparr> rt_set_power = RpiRt_set_power, rt_set_source = RpiRt_set_source,
             rt_set_zone = RpiRt_set_zone \<rparr>"

section \<open>The status document\<close>

text \<open>
  The status is a dictionary of fixed shape. Every write of the controller coerces the
  value with \<^verbatim>\<open>str\<close>, \<^verbatim>\<open>bool\<close> or \<^verbatim>\<open>int\<close>, so each member keeps the type it has in the initial
  document and the document is a record.
\<close>

record power_t =
  audio_power :: bool
  usb_power :: bool

record source =
  s_id :: int
  s_name :: string
  digital :: bool

record zone =
  z_id :: int
  z_name :: string
  source_id :: int
  mute :: bool
  stby :: bool
  disabled :: bool
  vol :: int

record group =
  g_id :: int
  g_name :: string
  g_zones :: "int list"

record status_t =
  power_st :: power_t
  sources :: "source list"
  zones :: "zone list"
  groups :: "group list"

record 'r EthAudioApi =
  rt :: "'r runtime"
  rt_self :: 'r
  status :: status_t

definition init_status :: status_t where
  "init_status = \<lparr>
     power_st = \<lparr> audio_power = False, usb_power = False \<rparr>,
     sources = [
       \<lparr> s_id = 0, s_name = ''Source 1'', digital = False \<rparr>,
       \<lparr> s_id = 1, s_name = ''Source 2'', digital = False \<rparr>,
       \<lparr> s_id = 2, s_name = ''Source 3'', digital = False \<rparr>,
       \<lparr> s_id = 3, s_name = ''Source 4'', digital = False \<rparr> ],
     zones = [
       \<lparr> z_id = 0, z_name = ''Zone 1'', source_id = 0, mute = False, stby = False, disabled = False, vol = 0 \<rparr>,
       \<lparr> z_id = 1, z_name = ''Zone 2'', source_id = 0, mute = False, stby = False, disabled = False, vol = 0 \<rparr>,
       \<lparr> z_id = 2, z_name = ''Zone 3'', source_id = 0, mute = False, stby = False, disabled = False, vol = 0 \<rparr>,
       \<lparr> z_id = 3, z_name = ''Zone 4'', source_id = 0, mute = False, stby = False, disabled = False, vol = 0 \<rparr>,
       \<lparr> z_id = 4, z_name = ''Zone 5'', source_id = 0, mute = False, stby = False, disabled = False, vol = 0 \<rparr>,
       \<lparr> z_id = 5, z_name = ''Zone 6'', source_id = 0, mute = False, stby = False, disabled = False, vol = 0 \<rparr> ],
     groups = [
       \<lparr> g_id = 0, g_name = ''Group 1'', g_zones = [0, 1, 2] \<rparr>,
       \<lparr> g_id = 1, g_name = ''Group 2'', g_zones = [2, 3, 4] \<rparr>,
       \<lparr> g_id = 2, g_name = ''Group 3'', g_zones = [5] \<rparr> ] \<rparr>"

text \<open>\<^verbatim>\<open>EthAudioApi.__init__(rt)\<close>: keeps the runtime and builds the base configuration.\<close>

definition EthAudioApi_init :: "'r runtime \<Rightarrow> 'r \<Rightarrow> 'r EthAudioApi" where
  "EthAudioApi_init R r = \<lparr> rt = R, rt_self = r, status = init_status \<rparr>"

section \<open>Operations of the controller\<close>

text \<open>
  The lookup loop of \<^verbatim>\<open>set_source\<close> and \<^verbatim>\<open>set_zone\<close>: it runs over the whole enumerated
  list and keeps the last index whose id equals the argument.
\<close>

fun lookup_loop :: "pyval \<Rightarrow> (nat \<times> int) list \<Rightarrow> nat option \<Rightarrow> nat option" where
  "lookup_loop i [] idx = idx"
| "lookup_loop i ((k, s) # xs) idx = lookup_loop i xs (if py_eq_int i s then Some k else idx)"

definition find_idx :: "pyval \<Rightarrow> int list \<Rightarrow> nat option" where
  "find_idx i ids = lookup_loop i (enumerate 0 ids) None"

definition set_power :: "'r EthAudioApi \<Rightarrow> pyval \<Rightarrow> pyval \<Rightarrow> reply \<times> 'r EthAudioApi" where
  "set_power self audio_power_arg usb_power_arg =
     (let p = power_st (status self);
          ap = updated_val audio_power_arg (PBool (audio_power p));
          up = updated_val usb_power_arg (PBool (usb_power p));
          (ok, r') = rt_set_power (rt self) (rt_self self) (py_bool ap) (py_bool up)
      in if ok
         then (None, self\<lparr> rt_self := r',
                 status := (status self)\<lparr> power_st :=
                   \<lparr> audio_power = py_bool ap, usb_power = py_bool up \<rparr> \<rparr> \<rparr>)
         else (Some (error (Text ''failed to set power'')), self\<lparr> rt_self := r' \<rparr>))"

text \<open>
  In \<^verbatim>\<open>set_source\<close> nothing inside the two \<^verbatim>\<open>try\<close> blocks can raise (the index was just
  found, \<^verbatim>\<open>str\<close> and \<^verbatim>\<open>bool\<close> are total and a runtime returns a bool), so their handlers
  have no branch here. When no source has the id, \<^verbatim>\<open>idx\<close> is \<^verbatim>\<open>None\<close> in the message.
\<close>

definition set_source ::
  "builtins \<Rightarrow> 'r EthAudioApi \<Rightarrow> pyval \<Rightarrow> pyval \<Rightarrow> pyval \<Rightarrow> reply \<times> 'r EthAudioApi" where
  "set_source B self i name_arg digital_arg =
     (case find_idx i (map s_id (sources (status self))) of
        None \<Rightarrow> (Some (error (Text ''set source: index None out of bounds'')), self)
      | Some idx \<Rightarrow>
          (let src = sources (status self) ! idx;
               name = updated_val name_arg (PStr (s_name src));
               dig = updated_val digital_arg (PBool (digital src));
               (ok, r') = rt_set_source (rt self) (rt_self self) idx (py_bool dig)
           in if ok
              then (None, self\<lparr> rt_self := r',
                      status := (status self)\<lparr> sources := (sources (status self))
                        [idx := src\<lparr> s_name := py_str B name, digital := py_bool dig \<rparr>] \<rparr> \<rparr>)
              else (Some (error (Text ''failed to set source'')), self\<lparr> rt_self := r' \<rparr>)))"

text \<open>
  In \<^verbatim>\<open>set_zone\<close> the first \<^verbatim>\<open>try\<close> block cannot raise either; the second one catches the
  exceptions of the two \<^verbatim>\<open>parse_int\<close> calls, which come before the runtime is called.
\<close>

definition set_zone ::
  "builtins \<Rightarrow> 'r EthAudioApi \<Rightarrow> pyval \<Rightarrow> pyval \<Rightarrow> pyval \<Rightarrow> pyval \<Rightarrow> pyval \<Rightarrow> pyval \<Rightarrow> pyval
     \<Rightarrow> reply \<times> 'r EthAudioApi" where
  "set_zone B self i name_arg source_id_arg mute_arg stby_arg vol_arg disabled_arg =
     (case find_idx i (map z_id (zones (status self))) of
        None \<Rightarrow> (Some (error (Text ''set zone: index None out of bounds'')), self)
      | Some idx \<Rightarrow>
          (let z = zones (status self) ! idx;
               name = updated_val name_arg (PStr (z_name z));
               src = updated_val source_id_arg (PInt (source_id z));
               mu = updated_val mute_arg (PBool (mute z));
               sb = updated_val stby_arg (PBool (stby z));
               vo = updated_val vol_arg (PInt (vol z));
               dis = updated_val disabled_arg (PBool (disabled z))
           in case parse_int B src [1, 2, 3, 4] of
                Inl e \<Rightarrow> (Some (error (TextExn ''set zone'' e)), self)
              | Inr sid \<Rightarrow>
                 (case parse_int B vo [-79..0] of
                    Inl e \<Rightarrow> (Some (error (TextExn ''set zone'' e)), self)
                  | Inr v \<Rightarrow>
                     (let (ok, r') = rt_set_zone (rt self) (rt_self self) idx sid
                                       (py_bool mu) (py_bool sb) v (py_bool dis)
                      in if ok
                         then (None, self\<lparr> rt_self := r',
                                 status := (status self)\<lparr> zones := (zones (status self))
                                   [idx := z\<lparr> z_name := py_str B name, source_id := sid,
                                              mute := py_bool mu, stby := py_bool sb, vol := v,
                                              disabled := py_bool dis \<rparr>] \<rparr> \<rparr>)
                         else (Some (error (Text ''failed to set zone'')),
                               self\<lparr> rt_self := r' \<rparr>)))))"

section \<open>Command dispatch\<close>

text \<open>\<^verbatim>\<open>cmd[k]\<close> raises \<^verbatim>\<open>KeyError\<close> on a missing key; arguments are evaluated left to right.\<close>

definition getitem :: "(string \<rightharpoonup> pyval) \<Rightarrow> string \<Rightarrow> exn + pyval" where
  "getitem cmd k = (case cmd k of None \<Rightarrow> Inl (KeyError k) | Some v \<Rightarrow> Inr v)"

definition then_do :: "exn + 'a \<Rightarrow> ('a \<Rightarrow> exn + 'b) \<Rightarrow> exn + 'b" where
  "then_do m f = (case m of Inl e \<Rightarrow> Inl e | Inr v \<Rightarrow> f v)"

text \<open>
  The body of the \<^verbatim>\<open>try\<close> block of \<^verbatim>\<open>parse_cmd\<close>, where \<open>Inl\<close> is an exception that
  leaves it: \<open>dispatch\<close> is the chain of comparisons on the command that was read.
\<close>

definition dispatch ::
  "builtins \<Rightarrow> 'r EthAudioApi \<Rightarrow> (string \<rightharpoonup> pyval) \<Rightarrow> pyval
     \<Rightarrow> exn + (reply \<times> 'r EthAudioApi)" where
  "dispatch B self cmd command =
     (if command = PNone then Inr (Some (error (Text ''No command specified'')), self)
      else if command = PStr ''return_state'' then Inr (None, self)
      else if command = PStr ''set_power'' then
        then_do (getitem cmd ''audio_power'') (\<lambda>a.
        then_do (getitem cmd ''usb_power'') (\<lambda>u.
          Inr (set_power self a u)))
      else if command = PStr ''set_source'' then
        then_do (getitem cmd ''id'') (\<lambda>i.
        then_do (getitem cmd ''name'') (\<lambda>n.
        then_do (getitem cmd ''digital'') (\<lambda>d.
          Inr (set_source B self i n d))))
      else if command = PStr ''set_zone'' then
        then_do (getitem cmd ''id'') (\<lambda>i.
        then_do (getitem cmd ''name'') (\<lambda>n.
        then_do (getitem cmd ''source_id'') (\<lambda>s.
        then_do (getitem cmd ''mute'') (\<lambda>m.
        then_do (getitem cmd ''stby'') (\<lambda>sb.
        then_do (getitem cmd ''vol'') (\<lambda>v.
        then_do (getitem cmd ''disabled'') (\<lambda>d.
          Inr (set_zone B self i n s m sb v d))))))))
      else if command = PStr ''set_group'' then
        Inr (Some (error (Text ''set_group unimplemented'')), self)
      else if command = PStr ''create_group'' then
        Inr (Some (error (Text ''create_group unimplemented'')), self)
      else if command = PStr ''delete_group'' then
        Inr (Some (error (Text ''delete_group unimplemented'')), self)
      else Inr (Some (error (TextVal ''command '' command '' is not supported'')), self))"

definition parse_cmd_body ::
  "builtins \<Rightarrow> 'r EthAudioApi \<Rightarrow> (string \<rightharpoonup> pyval) \<Rightarrow> exn + (reply \<times> 'r EthAudioApi)" where
  "parse_cmd_body B self cmd = then_do (getitem cmd ''command'') (dispatch B self cmd)"

definition parse_cmd ::
  "builtins \<Rightarrow> 'r EthAudioApi \<Rightarrow> (string \<rightharpoonup> pyval) \<Rightarrow> reply \<times> 'r EthAudioApi" where
  "parse_cmd B self cmd =
     (case parse_cmd_body B self cmd of
        Inl e \<Rightarrow> (Some (error (TextExn [] e)), self)
      | Inr r \<Rightarrow> r)"

text \<open>A sequence of commands, each applied to the controller the previous one left.\<close>

fun run_cmds :: "builtins \<Rightarrow> 'r EthAudioApi \<Rightarrow> (string \<rightharpoonup> pyval) list \<Rightarrow> 'r EthAudioApi" where
  "run_cmds B self [] = self"
| "run_cmds B self (c # cs) = run_cmds B (snd (parse_cmd B self c)) cs"

text \<open>
  The concrete runs below never convert a string to an integer and never print an object
  that is not a string, so neither builtin parameter is applied in them; they are run with
  this instance.
\<close>

definition builtins0 :: builtins where
  "builtins0 = \<lparr> int_str = (\<lambda>s. None), str_obj = (\<lambda>x. []) \<rparr>"

section \<open>Basic facts\<close>

lemmas run_defs = EthAudioApi_init_def init_status_def MockRt_def MockRt_set_power_def
  MockRt_set_source_def MockRt_set_zone_def MockRt_init_def RpiRt_def RpiRt_set_power_def
  RpiRt_set_source_def RpiRt_set_zone_def RpiRt_init_def set_power_def set_source_def
  set_zone_def find_idx_def updated_val_def parse_int_def error_def py_str_def Let_def
  parse_cmd_def parse_cmd_body_def dispatch_def getitem_def then_do_def builtins0_def

lemma lookup_loop_bound:
  "lookup_loop i (enumerate n xs) acc = Some k \<Longrightarrow> acc = Some k \<or> (n \<le> k \<and> k < n + length xs)"
proof (induction xs arbitrary: n acc)
  case Nil
  then show ?case by simp
next
  case (Cons x xs)
  from Cons.prems
  have "lookup_loop i (enumerate (Suc n) xs) (if py_eq_int i x then Some n else acc) = Some k"
    by simp
  from Cons.IH [OF this] show ?case
    by (auto split: if_splits)
qed

lemma find_idx_bound: "find_idx i ids = Some k \<Longrightarrow> k < length ids"
  using lookup_loop_bound [of i 0 ids None k] by (simp add: find_idx_def)

lemma parse_int_Inr: "parse_int B x opts = Inr n \<Longrightarrow> py_int B x = Inr n \<and> n \<in> set opts"
  by (auto simp: parse_int_def split: sum.splits if_splits)

subsection \<open>An operation that reports an error has not written the status\<close>

lemma set_power_err:
  "fst (set_power A a u) \<noteq> None \<Longrightarrow> status (snd (set_power A a u)) = status A"
  by (auto simp: set_power_def Let_def split: prod.splits if_splits)

lemma set_source_err:
  "fst (set_source B A i n d) \<noteq> None \<Longrightarrow> status (snd (set_source B A i n d)) = status A"
  by (auto simp: set_source_def Let_def split: prod.splits if_splits option.splits)

lemma set_zone_err:
  "fst (set_zone B A i n s m sb v d) \<noteq> None
     \<Longrightarrow> status (snd (set_zone B A i n s m sb v d)) = status A"
  by (auto simp: set_zone_def Let_def split: prod.splits if_splits option.splits sum.splits)

lemma error_ex: "\<exists>m. error x = error m"
  by (rule exI [of _ x]) (rule refl)

subsection \<open>Shape of the replies\<close>

lemma set_power_reply:
  "fst (set_power A a u) = None \<or> (\<exists>m. fst (set_power A a u) = Some (error m))"
  by (simp add: set_power_def Let_def error_ex split: prod.splits)

lemma set_source_reply:
  "fst (set_source B A i n d) = None \<or> (\<exists>m. fst (set_source B A i n d) = Some (error m))"
  by (simp add: set_source_def Let_def error_ex split: prod.splits option.splits)

lemma set_zone_reply:
  "fst (set_zone B A i n s m sb v d) = None
     \<or> (\<exists>msg. fst (set_zone B A i n s m sb v d) = Some (error msg))"
  by (simp add: set_zone_def Let_def error_ex split: prod.splits option.splits sum.splits)

subsection \<open>A failing runtime call\<close>

lemma set_power_fail:
  "\<forall>a' u'. \<not> fst (rt_set_power (rt A) (rt_self A) a' u') \<Longrightarrow> fst (set_power A a u) \<noteq> None"
  by (auto simp: set_power_def Let_def split: prod.splits) (metis fst_conv)

lemma set_source_fail:
  "\<forall>k dg. \<not> fst (rt_set_source (rt A) (rt_self A) k dg) \<Longrightarrow> fst (set_source B A i n d) \<noteq> None"
  by (auto simp: set_source_def Let_def split: prod.splits option.splits) (metis fst_conv)

lemma set_zone_fail:
  "\<forall>k sid m' sb' v' d'. \<not> fst (rt_set_zone (rt A) (rt_self A) k sid m' sb' v' d')
     \<Longrightarrow> fst (set_zone B A i n s m sb v d) \<noteq> None"
  by (auto simp: set_zone_def Let_def split: prod.splits option.splits sum.splits)
     (metis fst_conv)

text \<open>
  The same for the one runtime call that the operation makes: when that call reports
  failure, the reply is the operation's failure message.
\<close>

lemma set_power_call_fail:
  assumes "\<not> fst (rt_set_power (rt A) (rt_self A)
              (py_bool (updated_val pa (PBool (audio_power (power_st (status A))))))
              (py_bool (updated_val pu (PBool (usb_power (power_st (status A)))))))"
  shows "fst (set_power A pa pu) = Some (error (Text ''failed to set power''))"
  using assms by (auto simp: set_power_def Let_def split: prod.splits)

lemma set_source_call_fail:
  assumes "find_idx i (map s_id (sources (status A))) = Some k"
    and "\<not> fst (rt_set_source (rt A) (rt_self A) k
              (py_bool (updated_val d (PBool (digital (sources (status A) ! k))))))"
  shows "fst (set_source B A i n d) = Some (error (Text ''failed to set source''))"
  using assms by (auto simp: set_source_def Let_def split: prod.splits)

lemma set_zone_call_fail:
  assumes "find_idx j (map z_id (zones (status A))) = Some k"
    and "parse_int B (updated_val s (PInt (source_id (zones (status A) ! k)))) [1, 2, 3, 4]
           = Inr sid"
    and "parse_int B (updated_val v (PInt (vol (zones (status A) ! k)))) [-79..0] = Inr vv"
    and "\<not> fst (rt_set_zone (rt A) (rt_self A) k sid
              (py_bool (updated_val m (PBool (mute (zones (status A) ! k)))))
              (py_bool (updated_val sb (PBool (stby (zones (status A) ! k))))) vv
              (py_bool (updated_val zd (PBool (disabled (zones (status A) ! k))))))"
  shows "fst (set_zone B A j zn s m sb v zd) = Some (error (Text ''failed to set zone''))"
  using assms by (auto simp: set_zone_def Let_def split: prod.splits)

subsection \<open>The runtime object is never replaced\<close>

lemma set_power_rt: "rt (snd (set_power A a u)) = rt A"
  by (auto simp: set_power_def Let_def split: prod.splits)

lemma set_source_rt: "rt (snd (set_source B A i n d)) = rt A"
  by (auto simp: set_source_def Let_def split: prod.splits option.splits)

lemma set_zone_rt: "rt (snd (set_zone B A i n s m sb v d)) = rt A"
  by (auto simp: set_zone_def Let_def split: prod.splits option.splits sum.splits)

subsection \<open>What a successful operation wrote\<close>

lemma set_power_merge:
  assumes "fst (set_power A a u) = None"
  shows "audio_power (power_st (status (snd (set_power A a u)))) =
           (if a = PNone then audio_power (power_st (status A)) else py_bool a)
       \<and> usb_power (power_st (status (snd (set_power A a u)))) =
           (if u = PNone then usb_power (power_st (status A)) else py_bool u)"
  using assms
  by (auto simp: set_power_def Let_def updated_val_def split: prod.splits if_splits)

lemma set_source_merge:
  assumes "fst (set_source B A i n d) = None"
  shows "\<exists>k < length (sources (status A)).
           find_idx i (map s_id (sources (status A))) = Some k
         \<and> s_name (sources (status (snd (set_source B A i n d))) ! k) =
             (if n = PNone then s_name (sources (status A) ! k) else py_str B n)
         \<and> digital (sources (status (snd (set_source B A i n d))) ! k) =
             (if d = PNone then digital (sources (status A) ! k) else py_bool d)"
proof (cases "find_idx i (map s_id (sources (status A)))")
  case None
  with assms show ?thesis by (simp add: set_source_def)
next
  case (Some k)
  then have k: "k < length (sources (status A))"
    using find_idx_bound by fastforce
  from assms Some k show ?thesis
    by (auto simp: set_source_def Let_def updated_val_def py_str_def split: prod.splits if_splits)
qed

lemma set_zone_success:
  assumes "fst (set_zone B A i n s m sb v d) = None"
  shows "\<exists>k sid vv.
           find_idx i (map z_id (zones (status A))) = Some k
         \<and> parse_int B (updated_val s (PInt (source_id (zones (status A) ! k)))) [1, 2, 3, 4] = Inr sid
         \<and> parse_int B (updated_val v (PInt (vol (zones (status A) ! k)))) [-79..0] = Inr vv
         \<and> status (snd (set_zone B A i n s m sb v d)) =
             (status A)\<lparr> zones := (zones (status A))
               [k := (zones (status A) ! k)\<lparr>
                  z_name := py_str B (updated_val n (PStr (z_name (zones (status A) ! k)))),
                  source_id := sid,
                  mute := py_bool (updated_val m (PBool (mute (zones (status A) ! k)))),
                  stby := py_bool (updated_val sb (PBool (stby (zones (status A) ! k)))),
                  vol := vv,
                  disabled := py_bool (updated_val d (PBool (disabled (zones (status A) ! k)))) \<rparr>] \<rparr>"
proof (cases "find_idx i (map z_id (zones (status A)))")
  case None
  with assms show ?thesis by (simp add: set_zone_def)
next
  case (Some k)
  show ?thesis
  proof (cases "parse_int B (updated_val s (PInt (source_id (zones (status A) ! k)))) [1, 2, 3, 4]")
    case (Inl e)
    with assms Some show ?thesis by (simp add: set_zone_def Let_def)
  next
    case sid: (Inr sid)
    show ?thesis
    proof (cases "parse_int B (updated_val v (PInt (vol (zones (status A) ! k)))) [-79..0]")
      case (Inl e)
      with assms Some sid show ?thesis by (simp add: set_zone_def Let_def)
    next
      case vv: (Inr vv)
      obtain ok r' where call: "rt_set_zone (rt A) (rt_self A) k sid
          (py_bool (updated_val m (PBool (mute (zones (status A) ! k)))))
          (py_bool (updated_val sb (PBool (stby (zones (status A) ! k))))) vv
          (py_bool (updated_val d (PBool (disabled (zones (status A) ! k))))) = (ok, r')"
        by (cases "rt_set_zone (rt A) (rt_self A) k sid
          (py_bool (updated_val m (PBool (mute (zones (status A) ! k)))))
          (py_bool (updated_val sb (PBool (stby (zones (status A) ! k))))) vv
          (py_bool (updated_val d (PBool (disabled (zones (status A) ! k)))))")
      from assms Some sid vv call have ok by (simp add: set_zone_def Let_def split: if_splits)
      with Some sid vv call show ?thesis by (simp add: set_zone_def Let_def)
    qed
  qed
qed

lemma set_zone_merge:
  assumes "fst (set_zone B A i n s m sb v d) = None"
  shows "\<exists>k < length (zones (status A)).
           find_idx i (map z_id (zones (status A))) = Some k
         \<and> z_name (zones (status (snd (set_zone B A i n s m sb v d))) ! k) =
             (if n = PNone then z_name (zones (status A) ! k) else py_str B n)
         \<and> (if s = PNone
            then source_id (zones (status (snd (set_zone B A i n s m sb v d))) ! k) =
                   source_id (zones (status A) ! k)
            else py_int B s =
                   Inr (source_id (zones (status (snd (set_zone B A i n s m sb v d))) ! k)))
         \<and> mute (zones (status (snd (set_zone B A i n s m sb v d))) ! k) =
             (if m = PNone then mute (zones (status A) ! k) else py_bool m)
         \<and> stby (zones (status (snd (set_zone B A i n s m sb v d))) ! k) =
             (if sb = PNone then stby (zones (status A) ! k) else py_bool sb)
         \<and> (if v = PNone
            then vol (zones (status (snd (set_zone B A i n s m sb v d))) ! k) =
                   vol (zones (status A) ! k)
            else py_int B v =
                   Inr (vol (zones (status (snd (set_zone B A i n s m sb v d))) ! k)))
         \<and> disabled (zones (status (snd (set_zone B A i n s m sb v d))) ! k) =
             (if d = PNone then disabled (zones (status A) ! k) else py_bool d)"
proof -
  from set_zone_success [OF assms] obtain k sid vv where
    k: "find_idx i (map z_id (zones (status A))) = Some k" and
    sid: "parse_int B (updated_val s (PInt (source_id (zones (status A) ! k)))) [1, 2, 3, 4] = Inr sid" and
    vv: "parse_int B (updated_val v (PInt (vol (zones (status A) ! k)))) [-79..0] = Inr vv" and
    st: "status (snd (set_zone B A i n s m sb v d)) =
             (status A)\<lparr> zones := (zones (status A))
               [k := (zones (status A) ! k)\<lparr>
                  z_name := py_str B (updated_val n (PStr (z_name (zones (status A) ! k)))),
                  source_id := sid,
                  mute := py_bool (updated_val m (PBool (mute (zones (status A) ! k)))),
                  stby := py_bool (updated_val sb (PBool (stby (zones (status A) ! k)))),
                  vol := vv,
                  disabled := py_bool (updated_val d (PBool (disabled (zones (status A) ! k)))) \<rparr>] \<rparr>"
    by blast
  from k have len: "k < length (zones (status A))"
    using find_idx_bound by fastforce
  have s1: "if s = PNone then sid = source_id (zones (status A) ! k) else py_int B s = Inr sid"
    using parse_int_Inr [OF sid] by (simp add: updated_val_def split: if_splits)
  have v1: "if v = PNone then vv = vol (zones (status A) ! k) else py_int B v = Inr vv"
    using parse_int_Inr [OF vv] by (simp add: updated_val_def split: if_splits)
  have f_src: "source_id (zones (status (snd (set_zone B A i n s m sb v d))) ! k) = sid"
    using len by (simp add: st)
  have f_vol: "vol (zones (status (snd (set_zone B A i n s m sb v d))) ! k) = vv"
    using len by (simp add: st)
  have "z_name (zones (status (snd (set_zone B A i n s m sb v d))) ! k) =
          (if n = PNone then z_name (zones (status A) ! k) else py_str B n)"
    using len by (simp add: st updated_val_def py_str_def)
  moreover have "if s = PNone
      then source_id (zones (status (snd (set_zone B A i n s m sb v d))) ! k) =
             source_id (zones (status A) ! k)
      else py_int B s = Inr (source_id (zones (status (snd (set_zone B A i n s m sb v d))) ! k))"
    unfolding f_src using s1 by simp
  moreover have "mute (zones (status (snd (set_zone B A i n s m sb v d))) ! k) =
          (if m = PNone then mute (zones (status A) ! k) else py_bool m)"
    using len by (simp add: st updated_val_def)
  moreover have "stby (zones (status (snd (set_zone B A i n s m sb v d))) ! k) =
          (if sb = PNone then stby (zones (status A) ! k) else py_bool sb)"
    using len by (simp add: st updated_val_def)
  moreover have "if v = PNone
      then vol (zones (status (snd (set_zone B A i n s m sb v d))) ! k) = vol (zones (status A) ! k)
      else py_int B v = Inr (vol (zones (status (snd (set_zone B A i n s m sb v d))) ! k))"
    unfolding f_vol using v1 by simp
  moreover have "disabled (zones (status (snd (set_zone B A i n s m sb v d))) ! k) =
          (if d = PNone then disabled (zones (status A) ! k) else py_bool d)"
    using len by (simp add: st updated_val_def)
  ultimately show ?thesis
    using k len by blast
qed

subsection \<open>Dispatch\<close>

lemma then_do_Inr: "then_do (Inr v) f = f v"
  by (simp add: then_do_def)

lemma then_do_Inl: "then_do (Inl e) f = Inl e"
  by (simp add: then_do_def)

lemma parse_cmd_no_command:
  "cmd ''command'' = None \<Longrightarrow>
     parse_cmd B A cmd = (Some (error (TextExn [] (KeyError ''command''))), A)"
  by (simp add: parse_cmd_def parse_cmd_body_def getitem_def then_do_Inl)

lemma parse_cmd_known:
  "cmd ''command'' = Some c \<Longrightarrow>
     parse_cmd B A cmd =
       (case dispatch B A cmd c of Inl e \<Rightarrow> (Some (error (TextExn [] e)), A) | Inr r \<Rightarrow> r)"
  by (simp add: parse_cmd_def parse_cmd_body_def getitem_def then_do_Inr)

lemma dispatch_set_power:
  "dispatch B A cmd (PStr ''set_power'') =
     then_do (getitem cmd ''audio_power'') (\<lambda>a.
     then_do (getitem cmd ''usb_power'') (\<lambda>u. Inr (set_power A a u)))"
  by (simp add: dispatch_def)

lemma dispatch_set_source:
  "dispatch B A cmd (PStr ''set_source'') =
     then_do (getitem cmd ''id'') (\<lambda>i.
     then_do (getitem cmd ''name'') (\<lambda>n.
     then_do (getitem cmd ''digital'') (\<lambda>d. Inr (set_source B A i n d))))"
  by (simp add: dispatch_def)

lemma dispatch_set_zone:
  "dispatch B A cmd (PStr ''set_zone'') =
     then_do (getitem cmd ''id'') (\<lambda>i.
     then_do (getitem cmd ''name'') (\<lambda>n.
     then_do (getitem cmd ''source_id'') (\<lambda>s.
     then_do (getitem cmd ''mute'') (\<lambda>m.
     then_do (getitem cmd ''stby'') (\<lambda>sb.
     then_do (getitem cmd ''vol'') (\<lambda>v.
     then_do (getitem cmd ''disabled'') (\<lambda>d. Inr (set_zone B A i n s m sb v d))))))))"
  by (simp add: dispatch_def)

lemma dispatch_return_state: "dispatch B A cmd (PStr ''return_state'') = Inr (None, A)"
  by (simp add: dispatch_def)

lemma dispatch_set_group:
  "dispatch B A cmd (PStr ''set_group'') =
     Inr (Some (error (Text ''set_group unimplemented'')), A)"
  by (simp add: dispatch_def)

lemma dispatch_unknown:
  assumes "c \<noteq> PNone" "c \<noteq> PStr ''return_state''" "c \<noteq> PStr ''set_power''"
    "c \<noteq> PStr ''set_source''" "c \<noteq> PStr ''set_zone''" "c \<noteq> PStr ''set_group''"
    "c \<noteq> PStr ''create_group''" "c \<noteq> PStr ''delete_group''"
  shows "dispatch B A cmd c = Inr (Some (error (TextVal ''command '' c '' is not supported'')), A)"
  using assms by (simp add: dispatch_def)

lemma dispatch_error:
  assumes "c \<noteq> PStr ''return_state''" "c \<noteq> PStr ''set_power''"
    "c \<noteq> PStr ''set_source''" "c \<noteq> PStr ''set_zone''"
  shows "\<exists>m. dispatch B A cmd c = Inr (Some (error m), A)"
  using assms by (simp add: dispatch_def error_ex)

lemma parse_cmd_set_power:
  assumes "cmd ''command'' = Some (PStr ''set_power'')"
  shows "parse_cmd B A cmd =
     (if cmd ''audio_power'' = None then (Some (error (TextExn [] (KeyError ''audio_power''))), A)
      else if cmd ''usb_power'' = None then (Some (error (TextExn [] (KeyError ''usb_power''))), A)
      else set_power A (the (cmd ''audio_power'')) (the (cmd ''usb_power'')))"
  unfolding parse_cmd_known [where cmd = cmd, OF assms] dispatch_set_power
  apply (cases "cmd ''audio_power''"; simp add: getitem_def then_do_Inl then_do_Inr)
  apply (cases "cmd ''usb_power''"; simp add: getitem_def then_do_Inl then_do_Inr)
  done

lemma parse_cmd_set_source:
  assumes "cmd ''command'' = Some (PStr ''set_source'')"
  shows "parse_cmd B A cmd =
     (if cmd ''id'' = None then (Some (error (TextExn [] (KeyError ''id''))), A)
      else if cmd ''name'' = None then (Some (error (TextExn [] (KeyError ''name''))), A)
      else if cmd ''digital'' = None then (Some (error (TextExn [] (KeyError ''digital''))), A)
      else set_source B A (the (cmd ''id'')) (the (cmd ''name'')) (the (cmd ''digital'')))"
  unfolding parse_cmd_known [where cmd = cmd, OF assms] dispatch_set_source
  apply (cases "cmd ''id''"; simp add: getitem_def then_do_Inl then_do_Inr)
  apply (cases "cmd ''name''"; simp add: getitem_def then_do_Inl then_do_Inr)
  apply (cases "cmd ''digital''"; simp add: getitem_def then_do_Inl then_do_Inr)
  done

lemma parse_cmd_set_zone:
  assumes "cmd ''command'' = Some (PStr ''set_zone'')"
  shows "parse_cmd B A cmd =
     (if cmd ''id'' = None then (Some (error (TextExn [] (KeyError ''id''))), A)
      else if cmd ''name'' = None then (Some (error (TextExn [] (KeyError ''name''))), A)
      else if cmd ''source_id'' = None then (Some (error (TextExn [] (KeyError ''source_id''))), A)
      else if cmd ''mute'' = None then (Some (error (TextExn [] (KeyError ''mute''))), A)
      else if cmd ''stby'' = None then (Some (error (TextExn [] (KeyError ''stby''))), A)
      else if cmd ''vol'' = None then (Some (error (TextExn [] (KeyError ''vol''))), A)
      else if cmd ''disabled'' = None then (Some (error (TextExn [] (KeyError ''disabled''))), A)
      else set_zone B A (the (cmd ''id'')) (the (cmd ''name'')) (the (cmd ''source_id''))
             (the (cmd ''mute'')) (the (cmd ''stby'')) (the (cmd ''vol'')) (the (cmd ''disabled'')))"
  unfolding parse_cmd_known [where cmd = cmd, OF assms] dispatch_set_zone
  apply (cases "cmd ''id''"; simp add: getitem_def then_do_Inl then_do_Inr)
  apply (cases "cmd ''name''"; simp add: getitem_def then_do_Inl then_do_Inr)
  apply (cases "cmd ''source_id''"; simp add: getitem_def then_do_Inl then_do_Inr)
  apply (cases "cmd ''mute''"; simp add: getitem_def then_do_Inl then_do_Inr)
  apply (cases "cmd ''stby''"; simp add: getitem_def then_do_Inl then_do_Inr)
  apply (cases "cmd ''vol''"; simp add: getitem_def then_do_Inl then_do_Inr)
  apply (cases "cmd ''disabled''"; simp add: getitem_def then_do_Inl then_do_Inr)
  done

text \<open>Every result of a command is an error that left the controller alone, the plain
  success of \<open>return_state\<close>, or the result of one of the three operations.\<close>

lemma parse_cmd_cases [case_names error return_state set_power set_source set_zone]:
  assumes err: "\<And>m. Q (Some (error m), A)"
    and ret: "Q (None, A)"
    and pow: "\<And>a u. Q (set_power A a u)"
    and src: "\<And>i n d. Q (set_source B A i n d)"
    and zon: "\<And>i n s m sb v d. Q (set_zone B A i n s m sb v d)"
  shows "Q (parse_cmd B A cmd)"
proof (cases "cmd ''command''")
  case None
  show ?thesis by (simp add: parse_cmd_no_command [where cmd = cmd, OF None] err)
next
  case (Some c)
  show ?thesis
  proof (cases "c = PStr ''set_power''")
    case True
    with Some have c: "cmd ''command'' = Some (PStr ''set_power'')" by simp
    show ?thesis by (simp add: parse_cmd_set_power [where cmd = cmd, OF c] err pow)
  next
    case np: False
    show ?thesis
    proof (cases "c = PStr ''set_source''")
      case True
      with Some have c: "cmd ''command'' = Some (PStr ''set_source'')" by simp
      show ?thesis by (simp add: parse_cmd_set_source [where cmd = cmd, OF c] err src)
    next
      case ns: False
      show ?thesis
      proof (cases "c = PStr ''set_zone''")
        case True
        with Some have c: "cmd ''command'' = Some (PStr ''set_zone'')" by simp
        show ?thesis by (simp add: parse_cmd_set_zone [where cmd = cmd, OF c] err zon)
      next
        case nz: False
        show ?thesis
        proof (cases "c = PStr ''return_state''")
          case True
          then show ?thesis
            by (simp add: parse_cmd_known [where cmd = cmd, OF Some] dispatch_return_state ret)
        next
          case False
          from dispatch_error [OF False np ns nz, of B A cmd]
          obtain m where "dispatch B A cmd c = Inr (Some (error m), A)" ..
          then show ?thesis
            by (simp add: parse_cmd_known [where cmd = cmd, OF Some] err)
        qed
      qed
    qed
  qed
qed

lemma parse_cmd_reply:
  "fst (parse_cmd B A cmd) = None \<or> (\<exists>m. fst (parse_cmd B A cmd) = Some (error m))"
proof (rule parse_cmd_cases [where Q = "\<lambda>r. fst r = None \<or> (\<exists>m. fst r = Some (error m))"])
  show "fst (Some (error m), A) = None \<or> (\<exists>m'. fst (Some (error m), A) = Some (error m'))" for m
    by (simp add: error_ex)
qed (simp_all add: set_power_reply set_source_reply set_zone_reply)

lemma parse_cmd_rt: "rt (snd (parse_cmd B A cmd)) = rt A"
  by (rule parse_cmd_cases [where Q = "\<lambda>r. rt (snd r) = rt A"])
     (simp_all add: set_power_rt set_source_rt set_zone_rt)

lemma parse_cmd_err:
  "fst (parse_cmd B A cmd) \<noteq> None \<Longrightarrow> status (snd (parse_cmd B A cmd)) = status A"
  by (rule parse_cmd_cases [where Q = "\<lambda>r. fst r \<noteq> None \<longrightarrow> status (snd r) = status A", rule_format])
     (simp_all add: set_power_err set_source_err set_zone_err)

lemma keyerror_ex: "\<exists>k. error (TextExn s (KeyError x)) = error (TextExn s (KeyError k))"
  by (rule exI [of _ x]) (rule refl)

subsection \<open>The runtime of the Raspberry Pi\<close>

lemma RpiRt_power_fails: "rt A = RpiRt \<Longrightarrow> \<forall>a u. \<not> fst (rt_set_power (rt A) (rt_self A) a u)"
  by (simp add: RpiRt_def RpiRt_set_power_def)

lemma RpiRt_source_fails: "rt A = RpiRt \<Longrightarrow> \<forall>k dg. \<not> fst (rt_set_source (rt A) (rt_self A) k dg)"
  by (simp add: RpiRt_def RpiRt_set_source_def)

lemma RpiRt_zone_fails:
  "rt A = RpiRt \<Longrightarrow> \<forall>k sid m sb v d. \<not> fst (rt_set_zone (rt A) (rt_self A) k sid m sb v d)"
  by (simp add: RpiRt_def RpiRt_set_zone_def)

lemma RpiRt_parse_cmd_status:
  assumes "rt A = RpiRt"
  shows "status (snd (parse_cmd B A cmd)) = status A"
proof (rule parse_cmd_cases [where Q = "\<lambda>r. status (snd r) = status A"])
  show "status (snd (set_power A a u)) = status A" for a u
    using set_power_fail [OF RpiRt_power_fails [OF assms]] by (rule set_power_err)
  show "status (snd (set_source B A i n d)) = status A" for i n d
    using set_source_fail [OF RpiRt_source_fails [OF assms]] by (rule set_source_err)
  show "status (snd (set_zone B A i n s m sb v d)) = status A" for i n s m sb v d
    using set_zone_fail [OF RpiRt_zone_fails [OF assms]] by (rule set_zone_err)
qed simp_all

lemma RpiRt_run_cmds_status:
  "rt A = RpiRt \<Longrightarrow> status (run_cmds B A cs) = status A"
proof (induction cs arbitrary: A)
  case Nil
  show ?case by simp
next
  case (Cons c cs)
  have "rt (snd (parse_cmd B A c)) = RpiRt"
    using Cons.prems by (simp add: parse_cmd_rt)
  from Cons.IH [OF this] show ?case
    by (simp add: RpiRt_parse_cmd_status [OF Cons.prems])
qed

section \<open>Validation of the source of a zone\<close>

text \<open>
  C1. The claim: \<^verbatim>\<open>set_zone\<close> accepts a requested \<^verbatim>\<open>source_id\<close> exactly when it lies in
  0..3, and \<^verbatim>\<open>source_id=4\<close> is rejected with the zone unmodified. The code checks the source
  against the list \<^verbatim>\<open>[1, 2, 3, 4]\<close>, although its docstring gives the range [0,3] and the
  base configuration routes every zone to source 0. On the new controller with the mock
  runtime, \<^verbatim>\<open>set_zone(0, source_id=4)\<close> succeeds and zone 0 is routed to source 4, while
  \<^verbatim>\<open>set_zone(0, source_id=0)\<close> is refused.
\<close>

theorem set_zone_source_id_4_accepted:
  "fst (set_zone builtins0 (EthAudioApi_init MockRt MockRt_init)
          (PInt 0) PNone (PInt 4) PNone PNone PNone PNone) = None
   \<and> map source_id (zones (status (snd (set_zone builtins0 (EthAudioApi_init MockRt MockRt_init)
          (PInt 0) PNone (PInt 4) PNone PNone PNone PNone)))) = [4, 0, 0, 0, 0, 0]
   \<and> fst (set_zone builtins0 (EthAudioApi_init MockRt MockRt_init)
          (PInt 0) PNone (PInt 0) PNone PNone PNone PNone)
       = Some (error (TextExn ''set zone'' (NotInOptions (PInt 0) [1, 2, 3, 4])))"
  by (simp add: run_defs)

section \<open>The zone-source invariant\<close>

text \<open>
  C2. The claim: from the initial status, after any sequence of operations every zone's
  \<^verbatim>\<open>source_id\<close> is in 0..3. The same list \<^verbatim>\<open>[1, 2, 3, 4]\<close> breaks it: one dispatched
  \<^verbatim>\<open>set_zone\<close> command with \<^verbatim>\<open>source_id\<close> 4 leaves zone 0 on source 4.
\<close>

theorem dispatch_set_zone_breaks_source_range:
  "map source_id (zones (status (run_cmds builtins0 (EthAudioApi_init MockRt MockRt_init)
     [[''command'' \<mapsto> PStr ''set_zone'', ''id'' \<mapsto> PInt 0, ''name'' \<mapsto> PNone,
       ''source_id'' \<mapsto> PInt 4, ''mute'' \<mapsto> PNone, ''stby'' \<mapsto> PNone, ''vol'' \<mapsto> PNone,
       ''disabled'' \<mapsto> PNone]]))) = [4, 0, 0, 0, 0, 0]"
  by (simp add: run_defs)

section \<open>Atomicity\<close>



section \<open>Sparse updates\<close>

text \<open>
  C4. In the status committed by a successful \<^verbatim>\<open>set_power\<close>, \<^verbatim>\<open>set_source\<close> or
  \<^verbatim>\<open>set_zone\<close>, every field whose argument is absent (\<^verbatim>\<open>None\<close>) keeps its current value,
  and every field whose argument is supplied holds that argument, as the code coerces it to
  the type of the field: \<^verbatim>\<open>bool(x)\<close> for the flags, \<^verbatim>\<open>str(x)\<close> for the names, \<^verbatim>\<open>int(x)\<close> for
  \<^verbatim>\<open>source_id\<close> and \<^verbatim>\<open>vol\<close>. The entity written is the one at the index the lookup found.
\<close>

theorem sparse_update_merge:
  "(fst (set_power A pa pu) = None \<longrightarrow>
      audio_power (power_st (status (snd (set_power A pa pu)))) =
        (if pa = PNone then audio_power (power_st (status A)) else py_bool pa)
    \<and> usb_power (power_st (status (snd (set_power A pa pu)))) =
        (if pu = PNone then usb_power (power_st (status A)) else py_bool pu))
   \<and> (fst (set_source B A i n d) = None \<longrightarrow>
        (\<exists>k < length (sources (status A)).
           find_idx i (map s_id (sources (status A))) = Some k
         \<and> s_name (sources (status (snd (set_source B A i n d))) ! k) =
             (if n = PNone then s_name (sources (status A) ! k) else py_str B n)
         \<and> digital (sources (status (snd (set_source B A i n d))) ! k) =
             (if d = PNone then digital (sources (status A) ! k) else py_bool d)))
   \<and> (fst (set_zone B A j zn s m sb v zd) = None \<longrightarrow>
        (\<exists>k < length (zones (status A)).
           find_idx j (map z_id (zones (status A))) = Some k
         \<and> z_name (zones (status (snd (set_zone B A j zn s m sb v zd))) ! k) =
             (if zn = PNone then z_name (zones (status A) ! k) else py_str B zn)
         \<and> (if s = PNone
            then source_id (zones (status (snd (set_zone B A j zn s m sb v zd))) ! k) =
                   source_id (zones (status A) ! k)
            else py_int B s =
                   Inr (source_id (zones (status (snd (set_zone B A j zn s m sb v zd))) ! k)))
         \<and> mute (zones (status (snd (set_zone B A j zn s m sb v zd))) ! k) =
             (if m = PNone then mute (zones (status A) ! k) else py_bool m)
         \<and> stby (zones (status (snd (set_zone B A j zn s m sb v zd))) ! k) =
             (if sb = PNone then stby (zones (status A) ! k) else py_bool sb)
         \<and> (if v = PNone
            then vol (zones (status (snd (set_zone B A j zn s m sb v zd))) ! k) =
                   vol (zones (status A) ! k)
            else py_int B v =
                   Inr (vol (zones (status (snd (set_zone B A j zn s m sb v zd))) ! k)))
         \<and> disabled (zones (status (snd (set_zone B A j zn s m sb v zd))) ! k) =
             (if zd = PNone then disabled (zones (status A) ! k) else py_bool zd)))"
proof (intro conjI impI)
  assume "fst (set_power A pa pu) = None"
  from set_power_merge [OF this]
  show "audio_power (power_st (status (snd (set_power A pa pu)))) =
        (if pa = PNone then audio_power (power_st (status A)) else py_bool pa)"
    and "usb_power (power_st (status (snd (set_power A pa pu)))) =
        (if pu = PNone then usb_power (power_st (status A)) else py_bool pu)"
    by simp_all
next
  assume "fst (set_source B A i n d) = None"
  then show "\<exists>k < length (sources (status A)).
           find_idx i (map s_id (sources (status A))) = Some k
         \<and> s_name (sources (status (snd (set_source B A i n d))) ! k) =
             (if n = PNone then s_name (sources (status A) ! k) else py_str B n)
         \<and> digital (sources (status (snd (set_source B A i n d))) ! k) =
             (if d = PNone then digital (sources (status A) ! k) else py_bool d)"
    by (rule set_source_merge)
next
  assume "fst (set_zone B A j zn s m sb v zd) = None"
  then show "\<exists>k < length (zones (status A)).
           find_idx j (map z_id (zones (status A))) = Some k
         \<and> z_name (zones (status (snd (set_zone B A j zn s m sb v zd))) ! k) =
             (if zn = PNone then z_name (zones (status A) ! k) else py_str B zn)
         \<and> (if s = PNone
            then source_id (zones (status (snd (set_zone B A j zn s m sb v zd))) ! k) =
                   source_id (zones (status A) ! k)
            else py_int B s =
                   Inr (source_id (zones (status (snd (set_zone B A j zn s m sb v zd))) ! k)))
         \<and> mute (zones (status (snd (set_zone B A j zn s m sb v zd))) ! k) =
             (if m = PNone then mute (zones (status A) ! k) else py_bool m)
         \<and> stby (zones (status (snd (set_zone B A j zn s m sb v zd))) ! k) =
             (if sb = PNone then stby (zones (status A) ! k) else py_bool sb)
         \<and> (if v = PNone
            then vol (zones (status (snd (set_zone B A j zn s m sb v zd))) ! k) =
                   vol (zones (status A) ! k)
            else py_int B v =
                   Inr (vol (zones (status (snd (set_zone B A j zn s m sb v zd))) ! k)))
         \<and> disabled (zones (status (snd (set_zone B A j zn s m sb v zd))) ! k) =
             (if zd = PNone then disabled (zones (status A) ! k) else py_bool zd)"
    by (rule set_zone_merge)
qed

text \<open>
  One call of each operation on the new controller over the mock runtime, with some
  arguments supplied and the others absent.
\<close>

theorem sparse_update_merge_witness:
  "fst (set_power (EthAudioApi_init MockRt MockRt_init) (PBool True) PNone) = None
   \<and> power_st (status (snd (set_power (EthAudioApi_init MockRt MockRt_init) (PBool True) PNone)))
       = \<lparr> audio_power = True, usb_power = False \<rparr>
   \<and> fst (set_source builtins0 (EthAudioApi_init MockRt MockRt_init)
        (PInt 1) (PStr ''cd'') PNone) = None
   \<and> sources (status (snd (set_source builtins0 (EthAudioApi_init MockRt MockRt_init)
        (PInt 1) (PStr ''cd'') PNone))) ! 1
       = \<lparr> s_id = 1, s_name = ''cd'', digital = False \<rparr>
   \<and> fst (set_zone builtins0 (EthAudioApi_init MockRt MockRt_init)
        (PInt 0) PNone (PInt 2) (PBool True) PNone (PInt (- 20)) PNone) = None
   \<and> zones (status (snd (set_zone builtins0 (EthAudioApi_init MockRt MockRt_init)
        (PInt 0) PNone (PInt 2) (PBool True) PNone (PInt (- 20)) PNone))) ! 0
       = \<lparr> z_id = 0, z_name = ''Zone 1'', source_id = 2, mute = True, stby = False,
           disabled = False, vol = - 20 \<rparr>"
  using sparse_update_merge [of "EthAudioApi_init MockRt MockRt_init" "PBool True" PNone
    builtins0 "PInt 1" "PStr ''cd''" PNone "PInt 0" PNone "PInt 2" "PBool True" PNone
    "PInt (- 20)" PNone]
  by (simp add: run_defs)

section \<open>Failure of the hardware\<close>

text \<open>
  C5. When the runtime call that \<^verbatim>\<open>set_power\<close> (\<^verbatim>\<open>set_source\<close>, \<^verbatim>\<open>set_zone\<close>) makes
  reports failure, the operation returns its error (\<^verbatim>\<open>failed to set power\<close>,
  \<^verbatim>\<open>failed to set source\<close>, \<^verbatim>\<open>failed to set zone\<close>) and the status document is
  unchanged. The call is the one of the source: \<^verbatim>\<open>set_power\<close> calls the runtime with the
  merged and coerced power flags; \<^verbatim>\<open>set_source\<close> with the index found for the id and the
  merged \<^verbatim>\<open>digital\<close>; \<^verbatim>\<open>set_zone\<close> with the index found, the two parsed integers and the
  merged flags. Nothing is assumed about the runtime on other arguments.
\<close>

theorem hardware_failure_no_commit:
  "(\<not> fst (rt_set_power (rt A) (rt_self A)
         (py_bool (updated_val pa (PBool (audio_power (power_st (status A))))))
         (py_bool (updated_val pu (PBool (usb_power (power_st (status A))))))) \<longrightarrow>
       fst (set_power A pa pu) = Some (error (Text ''failed to set power''))
       \<and> status (snd (set_power A pa pu)) = status A)
   \<and> (find_idx i (map s_id (sources (status A))) = Some k
       \<and> \<not> fst (rt_set_source (rt A) (rt_self A) k
                (py_bool (updated_val d (PBool (digital (sources (status A) ! k)))))) \<longrightarrow>
       fst (set_source B A i n d) = Some (error (Text ''failed to set source''))
       \<and> status (snd (set_source B A i n d)) = status A)
   \<and> (find_idx j (map z_id (zones (status A))) = Some l
       \<and> parse_int B (updated_val s (PInt (source_id (zones (status A) ! l)))) [1, 2, 3, 4]
           = Inr sid
       \<and> parse_int B (updated_val v (PInt (vol (zones (status A) ! l)))) [-79..0] = Inr vv
       \<and> \<not> fst (rt_set_zone (rt A) (rt_self A) l sid
                (py_bool (updated_val m (PBool (mute (zones (status A) ! l)))))
                (py_bool (updated_val sb (PBool (stby (zones (status A) ! l))))) vv
                (py_bool (updated_val zd (PBool (disabled (zones (status A) ! l)))))) \<longrightarrow>
       fst (set_zone B A j zn s m sb v zd) = Some (error (Text ''failed to set zone''))
       \<and> status (snd (set_zone B A j zn s m sb v zd)) = status A)"
proof (intro conjI impI)
  assume h: "\<not> fst (rt_set_power (rt A) (rt_self A)
         (py_bool (updated_val pa (PBool (audio_power (power_st (status A))))))
         (py_bool (updated_val pu (PBool (usb_power (power_st (status A)))))))"
  from set_power_call_fail [OF h]
  show p: "fst (set_power A pa pu) = Some (error (Text ''failed to set power''))" .
  from p have "fst (set_power A pa pu) \<noteq> None" by simp
  from set_power_err [OF this] show "status (snd (set_power A pa pu)) = status A" .
next
  assume h: "find_idx i (map s_id (sources (status A))) = Some k
       \<and> \<not> fst (rt_set_source (rt A) (rt_self A) k
                (py_bool (updated_val d (PBool (digital (sources (status A) ! k))))))"
  from set_source_call_fail [OF conjunct1 [OF h] conjunct2 [OF h]]
  show p: "fst (set_source B A i n d) = Some (error (Text ''failed to set source''))" .
  from p have "fst (set_source B A i n d) \<noteq> None" by simp
  from set_source_err [OF this] show "status (snd (set_source B A i n d)) = status A" .
next
  assume h: "find_idx j (map z_id (zones (status A))) = Some l
       \<and> parse_int B (updated_val s (PInt (source_id (zones (status A) ! l)))) [1, 2, 3, 4]
           = Inr sid
       \<and> parse_int B (updated_val v (PInt (vol (zones (status A) ! l)))) [-79..0] = Inr vv
       \<and> \<not> fst (rt_set_zone (rt A) (rt_self A) l sid
                (py_bool (updated_val m (PBool (mute (zones (status A) ! l)))))
                (py_bool (updated_val sb (PBool (stby (zones (status A) ! l))))) vv
                (py_bool (updated_val zd (PBool (disabled (zones (status A) ! l))))))"
  from h have h1: "find_idx j (map z_id (zones (status A))) = Some l"
    and h2: "parse_int B (updated_val s (PInt (source_id (zones (status A) ! l))))
      [1, 2, 3, 4] = Inr sid"
    and h3: "parse_int B (updated_val v (PInt (vol (zones (status A) ! l)))) [-79..0]
      = Inr vv"
    and h4: "\<not> fst (rt_set_zone (rt A) (rt_self A) l sid
                (py_bool (updated_val m (PBool (mute (zones (status A) ! l)))))
                (py_bool (updated_val sb (PBool (stby (zones (status A) ! l))))) vv
                (py_bool (updated_val zd (PBool (disabled (zones (status A) ! l))))))"
    by (rule conjunct1, rule conjunct1 [OF conjunct2],
        rule conjunct1 [OF conjunct2 [OF conjunct2]],
        rule conjunct2 [OF conjunct2 [OF conjunct2]])
  from set_zone_call_fail [OF h1 h2 h3 h4]
  show p: "fst (set_zone B A j zn s m sb v zd) = Some (error (Text ''failed to set zone''))" .
  from p have "fst (set_zone B A j zn s m sb v zd) \<noteq> None" by simp
  from set_zone_err [OF this]
  show "status (snd (set_zone B A j zn s m sb v zd)) = status A" .
qed

text \<open>
  \<^verbatim>\<open>RpiRt\<close> fails on every call. The second runtime is the mock with a \<^verbatim>\<open>set_zone\<close>
  that fails on the zone of index 1 only: the update of zone 1 is refused and nothing is
  written, the same update of zone 0 succeeds.
\<close>

theorem hardware_failure_no_commit_witness:
  "\<not> fst (rt_set_power RpiRt RpiRt_init True False)
   \<and> fst (set_power (EthAudioApi_init RpiRt RpiRt_init) (PBool True) PNone)
       = Some (error (Text ''failed to set power''))
   \<and> status (snd (set_power (EthAudioApi_init RpiRt RpiRt_init) (PBool True) PNone)) = init_status
   \<and> \<not> fst (rt_set_source RpiRt RpiRt_init 1 True)
   \<and> fst (set_source builtins0 (EthAudioApi_init RpiRt RpiRt_init) (PInt 1) PNone (PBool True))
       = Some (error (Text ''failed to set source''))
   \<and> status (snd (set_source builtins0 (EthAudioApi_init RpiRt RpiRt_init)
        (PInt 1) PNone (PBool True))) = init_status
   \<and> \<not> fst (rt_set_zone (MockRt\<lparr> rt_set_zone := (\<lambda>r k sid m sb v d. (k \<noteq> 1, r)) \<rparr>)
          MockRt_init 1 3 False False 0 False)
   \<and> fst (set_zone builtins0
        (EthAudioApi_init (MockRt\<lparr> rt_set_zone := (\<lambda>r k sid m sb v d. (k \<noteq> 1, r)) \<rparr>)
           MockRt_init)
        (PInt 1) PNone (PInt 3) PNone PNone PNone PNone)
       = Some (error (Text ''failed to set zone''))
   \<and> status (snd (set_zone builtins0
        (EthAudioApi_init (MockRt\<lparr> rt_set_zone := (\<lambda>r k sid m sb v d. (k \<noteq> 1, r)) \<rparr>)
           MockRt_init)
        (PInt 1) PNone (PInt 3) PNone PNone PNone PNone)) = init_status
   \<and> fst (set_zone builtins0
        (EthAudioApi_init (MockRt\<lparr> rt_set_zone := (\<lambda>r k sid m sb v d. (k \<noteq> 1, r)) \<rparr>)
           MockRt_init)
        (PInt 0) PNone (PInt 3) PNone PNone PNone PNone) = None"
  using hardware_failure_no_commit [where A = "EthAudioApi_init RpiRt RpiRt_init"
      and pa = "PBool True" and pu = PNone and B = builtins0
      and i = "PInt 1" and k = 1 and n = PNone and d = "PBool True"
      and j = "PInt 0" and l = 0 and sid = 2 and vv = 0
      and zn = PNone and s = "PInt 2" and m = PNone and sb = PNone
      and v = PNone and zd = PNone]
    hardware_failure_no_commit [where A = "EthAudioApi_init
        (MockRt\<lparr> rt_set_zone := (\<lambda>r k sid m sb v d. (k \<noteq> 1, r)) \<rparr>) MockRt_init"
      and pa = "PBool True" and pu = PNone and B = builtins0
      and i = "PInt 1" and k = 1 and n = PNone and d = "PBool True"
      and j = "PInt 1" and l = 1 and sid = 3 and vv = 0
      and zn = PNone and s = "PInt 3" and m = PNone and sb = PNone
      and v = PNone and zd = PNone]
  by (simp add: run_defs)

section \<open>The base configuration\<close>

text \<open>
  C6. A newly constructed controller has exactly four sources, named "Source 1" to
  "Source 4", none of them digital (the code's \<^verbatim>\<open>digital: False\<close> is the analog, local
  input), and six zones, each on source 0 at volume 0, not muted, not in standby and not
  disabled.
\<close>

theorem fresh_boot_default:
  "map s_name (sources (status (EthAudioApi_init R r)))
     = [''Source 1'', ''Source 2'', ''Source 3'', ''Source 4'']
   \<and> map s_id (sources (status (EthAudioApi_init R r))) = [0, 1, 2, 3]
   \<and> map digital (sources (status (EthAudioApi_init R r))) = [False, False, False, False]
   \<and> length (zones (status (EthAudioApi_init R r))) = 6
   \<and> map source_id (zones (status (EthAudioApi_init R r))) = [0, 0, 0, 0, 0, 0]
   \<and> map vol (zones (status (EthAudioApi_init R r))) = [0, 0, 0, 0, 0, 0]
   \<and> map mute (zones (status (EthAudioApi_init R r))) = [False, False, False, False, False, False]
   \<and> map stby (zones (status (EthAudioApi_init R r))) = [False, False, False, False, False, False]
   \<and> map disabled (zones (status (EthAudioApi_init R r)))
       = [False, False, False, False, False, False]"
  by (simp add: EthAudioApi_init_def init_status_def)

section \<open>Groups\<close>

text \<open>
  C7. The claim: \<^verbatim>\<open>set_group\<close> with a \<^verbatim>\<open>vol_delta\<close> adds the offset to the volume of each
  member zone, saturating to [-79, 0], and succeeds. The code has no group operation: the
  command \<^verbatim>\<open>set_group\<close> is answered with the error "set_group unimplemented". For group 0
  (zones 0, 1, 2) and \<^verbatim>\<open>vol_delta\<close> -5 the reply is that error and every volume is still 0.
\<close>

theorem set_group_vol_delta_rejected:
  "fst (parse_cmd builtins0 (EthAudioApi_init MockRt MockRt_init)
         [''command'' \<mapsto> PStr ''set_group'', ''id'' \<mapsto> PInt 0, ''vol_delta'' \<mapsto> PInt (- 5)])
     = Some (error (Text ''set_group unimplemented''))
   \<and> map vol (zones (status (snd (parse_cmd builtins0 (EthAudioApi_init MockRt MockRt_init)
         [''command'' \<mapsto> PStr ''set_group'', ''id'' \<mapsto> PInt 0, ''vol_delta'' \<mapsto> PInt (- 5)]))))
     = [0, 0, 0, 0, 0, 0]"
  by (simp add: run_defs)

text \<open>
  C7, as amended: every command \<^verbatim>\<open>set_group\<close>, whatever its other members, is answered
  with the error "set_group unimplemented" and leaves the controller as it was.
\<close>

theorem set_group_unimplemented:
  "cmd ''command'' = Some (PStr ''set_group'') \<Longrightarrow>
     parse_cmd B A cmd = (Some (error (Text ''set_group unimplemented'')), A)"
  by (simp add: parse_cmd_known [where cmd = cmd] dispatch_set_group)

theorem set_group_unimplemented_witness:
  "parse_cmd builtins0 (EthAudioApi_init MockRt MockRt_init)
     [''command'' \<mapsto> PStr ''set_group'', ''id'' \<mapsto> PInt 0, ''vol_delta'' \<mapsto> PInt (- 5)]
   = (Some (error (Text ''set_group unimplemented'')), EthAudioApi_init MockRt MockRt_init)"
  using set_group_unimplemented [where cmd =
      "[''command'' \<mapsto> PStr ''set_group'', ''id'' \<mapsto> PInt 0, ''vol_delta'' \<mapsto> PInt (- 5)]"
      and B = builtins0 and A = "EthAudioApi_init MockRt MockRt_init"]
  by simp

section \<open>The mock runtime\<close>

text \<open>
  C8. The claim: every call of the mock succeeds, and the mock records the last arguments
  of each call. The second half fails: \<^verbatim>\<open>MockRt\<close> "actually does nothing". After zone 0 was
  routed to source 2 through the controller, the mock has no attribute at all, and its state
  is the same as after a call with other arguments.
\<close>

theorem mock_holds_no_argument:
  "fst (set_zone builtins0 (EthAudioApi_init MockRt MockRt_init)
          (PInt 0) PNone (PInt 2) PNone PNone PNone PNone) = None
   \<and> map source_id (zones (status (snd (set_zone builtins0 (EthAudioApi_init MockRt MockRt_init)
          (PInt 0) PNone (PInt 2) PNone PNone PNone PNone)))) = [2, 0, 0, 0, 0, 0]
   \<and> dom (rt_self (snd (set_zone builtins0 (EthAudioApi_init MockRt MockRt_init)
          (PInt 0) PNone (PInt 2) PNone PNone PNone PNone))) = {}
   \<and> snd (MockRt_set_zone MockRt_init 0 2 False False 0 False)
       = snd (MockRt_set_zone MockRt_init 1 3 True True (- 5) True)"
  by (simp add: run_defs)

text \<open>
  C8, as amended: every call of the mock's \<^verbatim>\<open>set_power\<close>, \<^verbatim>\<open>set_source\<close> and
  \<^verbatim>\<open>set_zone\<close> returns \<^verbatim>\<open>True\<close> for all arguments and leaves the state of the mock as it
  was, also when the call is made by the controller.
\<close>

theorem mock_succeeds_and_keeps_nothing:
  "rt_set_power MockRt r a u = (True, r)
   \<and> rt_set_source MockRt r k dg = (True, r)
   \<and> rt_set_zone MockRt r k sid m sb v d = (True, r)
   \<and> rt_self (snd (set_power (EthAudioApi_init MockRt r) pa pu)) = r
   \<and> rt_self (snd (set_source B (EthAudioApi_init MockRt r) i n sd)) = r
   \<and> rt_self (snd (set_zone B (EthAudioApi_init MockRt r) j zn zs zm zsb zv zd)) = r"
  by (simp add: MockRt_def MockRt_set_power_def MockRt_set_source_def MockRt_set_zone_def
        EthAudioApi_init_def set_power_def set_source_def set_zone_def Let_def
      split: option.splits sum.splits)

section \<open>Totality of the dispatch\<close>

text \<open>
  C9. For every command dictionary \<^verbatim>\<open>parse_cmd\<close> returns \<^verbatim>\<open>None\<close> or an error
  dictionary. A missing \<^verbatim>\<open>command\<close> key, a missing argument key of \<^verbatim>\<open>set_power\<close>,
  \<^verbatim>\<open>set_source\<close> or \<^verbatim>\<open>set_zone\<close>, and an unknown command name each give an error and
  leave the controller as it was; every exception that leaves the body of the \<^verbatim>\<open>try\<close> block
  is turned into the error carrying its text.
\<close>

theorem parse_cmd_total:
  "(fst (parse_cmd B A cmd) = None \<or> (\<exists>m. fst (parse_cmd B A cmd) = Some (error m)))
   \<and> (cmd ''command'' = None \<longrightarrow>
        parse_cmd B A cmd = (Some (error (TextExn [] (KeyError ''command''))), A))
   \<and> (cmd ''command'' = Some (PStr ''set_power'')
        \<and> (cmd ''audio_power'' = None \<or> cmd ''usb_power'' = None) \<longrightarrow>
        (\<exists>k. parse_cmd B A cmd = (Some (error (TextExn [] (KeyError k))), A)))
   \<and> (cmd ''command'' = Some (PStr ''set_source'')
        \<and> (cmd ''id'' = None \<or> cmd ''name'' = None \<or> cmd ''digital'' = None) \<longrightarrow>
        (\<exists>k. parse_cmd B A cmd = (Some (error (TextExn [] (KeyError k))), A)))
   \<and> (cmd ''command'' = Some (PStr ''set_zone'')
        \<and> (cmd ''id'' = None \<or> cmd ''name'' = None \<or> cmd ''source_id'' = None
           \<or> cmd ''mute'' = None \<or> cmd ''stby'' = None \<or> cmd ''vol'' = None
           \<or> cmd ''disabled'' = None) \<longrightarrow>
        (\<exists>k. parse_cmd B A cmd = (Some (error (TextExn [] (KeyError k))), A)))
   \<and> (cmd ''command'' = Some c \<and> c \<noteq> PNone \<and> c \<noteq> PStr ''return_state''
        \<and> c \<noteq> PStr ''set_power'' \<and> c \<noteq> PStr ''set_source'' \<and> c \<noteq> PStr ''set_zone''
        \<and> c \<noteq> PStr ''set_group'' \<and> c \<noteq> PStr ''create_group''
        \<and> c \<noteq> PStr ''delete_group'' \<longrightarrow>
        parse_cmd B A cmd = (Some (error (TextVal ''command '' c '' is not supported'')), A))
   \<and> (parse_cmd_body B A cmd = Inl e \<longrightarrow>
        parse_cmd B A cmd = (Some (error (TextExn [] e)), A))"
proof -
  have t: "fst (parse_cmd B A cmd) = None \<or> (\<exists>m. fst (parse_cmd B A cmd) = Some (error m))"
    by (rule parse_cmd_reply)
  have n: "cmd ''command'' = None \<longrightarrow>
        parse_cmd B A cmd = (Some (error (TextExn [] (KeyError ''command''))), A)"
    by (simp add: parse_cmd_no_command [where cmd = cmd])
  have p: "cmd ''command'' = Some (PStr ''set_power'')
        \<and> (cmd ''audio_power'' = None \<or> cmd ''usb_power'' = None) \<longrightarrow>
        (\<exists>k. parse_cmd B A cmd = (Some (error (TextExn [] (KeyError k))), A))"
  proof
    assume h: "cmd ''command'' = Some (PStr ''set_power'')
        \<and> (cmd ''audio_power'' = None \<or> cmd ''usb_power'' = None)"
    then have c: "cmd ''command'' = Some (PStr ''set_power'')" by simp
    from h show "\<exists>k. parse_cmd B A cmd = (Some (error (TextExn [] (KeyError k))), A)"
      by (auto simp: parse_cmd_set_power [where cmd = cmd, OF c] keyerror_ex)
  qed
  have s: "cmd ''command'' = Some (PStr ''set_source'')
        \<and> (cmd ''id'' = None \<or> cmd ''name'' = None \<or> cmd ''digital'' = None) \<longrightarrow>
        (\<exists>k. parse_cmd B A cmd = (Some (error (TextExn [] (KeyError k))), A))"
  proof
    assume h: "cmd ''command'' = Some (PStr ''set_source'')
        \<and> (cmd ''id'' = None \<or> cmd ''name'' = None \<or> cmd ''digital'' = None)"
    then have c: "cmd ''command'' = Some (PStr ''set_source'')" by simp
    from h show "\<exists>k. parse_cmd B A cmd = (Some (error (TextExn [] (KeyError k))), A)"
      by (auto simp: parse_cmd_set_source [where cmd = cmd, OF c] keyerror_ex)
  qed
  have z: "cmd ''command'' = Some (PStr ''set_zone'')
        \<and> (cmd ''id'' = None \<or> cmd ''name'' = None \<or> cmd ''source_id'' = None
           \<or> cmd ''mute'' = None \<or> cmd ''stby'' = None \<or> cmd ''vol'' = None
           \<or> cmd ''disabled'' = None) \<longrightarrow>
        (\<exists>k. parse_cmd B A cmd = (Some (error (TextExn [] (KeyError k))), A))"
  proof
    assume h: "cmd ''command'' = Some (PStr ''set_zone'')
        \<and> (cmd ''id'' = None \<or> cmd ''name'' = None \<or> cmd ''source_id'' = None
           \<or> cmd ''mute'' = None \<or> cmd ''stby'' = None \<or> cmd ''vol'' = None
           \<or> cmd ''disabled'' = None)"
    then have c: "cmd ''command'' = Some (PStr ''set_zone'')" by simp
    from h show "\<exists>k. parse_cmd B A cmd = (Some (error (TextExn [] (KeyError k))), A)"
      by (auto simp: parse_cmd_set_zone [where cmd = cmd, OF c] keyerror_ex)
  qed
  have u: "cmd ''command'' = Some c \<and> c \<noteq> PNone \<and> c \<noteq> PStr ''return_state''
        \<and> c \<noteq> PStr ''set_power'' \<and> c \<noteq> PStr ''set_source'' \<and> c \<noteq> PStr ''set_zone''
        \<and> c \<noteq> PStr ''set_group'' \<and> c \<noteq> PStr ''create_group''
        \<and> c \<noteq> PStr ''delete_group'' \<longrightarrow>
        parse_cmd B A cmd = (Some (error (TextVal ''command '' c '' is not supported'')), A)"
    by (simp add: parse_cmd_known [where cmd = cmd and c = c] dispatch_unknown)
  have x: "parse_cmd_body B A cmd = Inl e \<longrightarrow>
        parse_cmd B A cmd = (Some (error (TextExn [] e)), A)"
    by (simp add: parse_cmd_def)
  show ?thesis
    by (rule conjI [OF t conjI [OF n conjI [OF p conjI [OF s conjI [OF z conjI [OF u x]]]]]])
qed

theorem parse_cmd_total_witness:
  "parse_cmd builtins0 (EthAudioApi_init MockRt MockRt_init) Map.empty
     = (Some (error (TextExn [] (KeyError ''command''))), EthAudioApi_init MockRt MockRt_init)
   \<and> parse_cmd_body builtins0 (EthAudioApi_init MockRt MockRt_init) Map.empty
     = Inl (KeyError ''command'')
   \<and> parse_cmd builtins0 (EthAudioApi_init MockRt MockRt_init)
       [''command'' \<mapsto> PStr ''set_power'', ''audio_power'' \<mapsto> PBool True]
     = (Some (error (TextExn [] (KeyError ''usb_power''))), EthAudioApi_init MockRt MockRt_init)
   \<and> parse_cmd builtins0 (EthAudioApi_init MockRt MockRt_init)
       [''command'' \<mapsto> PStr ''set_source'', ''id'' \<mapsto> PInt 1, ''digital'' \<mapsto> PBool True]
     = (Some (error (TextExn [] (KeyError ''name''))), EthAudioApi_init MockRt MockRt_init)
   \<and> parse_cmd builtins0 (EthAudioApi_init MockRt MockRt_init)
       [''command'' \<mapsto> PStr ''set_zone'', ''id'' \<mapsto> PInt 1, ''name'' \<mapsto> PNone]
     = (Some (error (TextExn [] (KeyError ''source_id''))), EthAudioApi_init MockRt MockRt_init)
   \<and> parse_cmd builtins0 (EthAudioApi_init MockRt MockRt_init) [''command'' \<mapsto> PStr ''reboot'']
     = (Some (error (TextVal ''command '' (PStr ''reboot'') '' is not supported'')),
        EthAudioApi_init MockRt MockRt_init)"
  using parse_cmd_total [where B = builtins0 and A = "EthAudioApi_init MockRt MockRt_init"
      and cmd = Map.empty and c = PNone and e = "KeyError ''command''"]
    parse_cmd_total [where B = builtins0 and A = "EthAudioApi_init MockRt MockRt_init"
      and cmd = "[''command'' \<mapsto> PStr ''set_power'', ''audio_power'' \<mapsto> PBool True]"]
    parse_cmd_total [where B = builtins0 and A = "EthAudioApi_init MockRt MockRt_init"
      and cmd = "[''command'' \<mapsto> PStr ''set_source'', ''id'' \<mapsto> PInt 1,
                  ''digital'' \<mapsto> PBool True]"]
    parse_cmd_total [where B = builtins0 and A = "EthAudioApi_init MockRt MockRt_init"
      and cmd = "[''command'' \<mapsto> PStr ''set_zone'', ''id'' \<mapsto> PInt 1, ''name'' \<mapsto> PNone]"]
    parse_cmd_total [where B = builtins0 and A = "EthAudioApi_init MockRt MockRt_init"
      and cmd = "[''command'' \<mapsto> PStr ''reboot'']" and c = "PStr ''reboot''"]
  by (simp add: parse_cmd_def parse_cmd_body_def dispatch_def getitem_def then_do_def)

section \<open>A controller over the runtime of the Raspberry Pi\<close>

text \<open>
  C10. Every method of \<^verbatim>\<open>RpiRt\<close> returns \<^verbatim>\<open>False\<close> for all arguments. So on a controller
  over \<^verbatim>\<open>RpiRt\<close> each of \<^verbatim>\<open>set_power\<close>, \<^verbatim>\<open>set_source\<close> and \<^verbatim>\<open>set_zone\<close> returns an error
  and keeps the status, and after any sequence of commands the status is still the initial
  one.
\<close>

theorem rpi_runtime_always_fails:
  "\<not> fst (rt_set_power RpiRt r a u)
   \<and> \<not> fst (rt_set_source RpiRt r k dg)
   \<and> \<not> fst (rt_set_zone RpiRt r k sid m sb v d)
   \<and> (rt A = RpiRt \<longrightarrow>
        fst (set_power A pa pu) \<noteq> None \<and> status (snd (set_power A pa pu)) = status A)
   \<and> (rt A = RpiRt \<longrightarrow>
        fst (set_source B A i n sd) \<noteq> None \<and> status (snd (set_source B A i n sd)) = status A)
   \<and> (rt A = RpiRt \<longrightarrow>
        fst (set_zone B A j zn zs zm zsb zv zd) \<noteq> None
        \<and> status (snd (set_zone B A j zn zs zm zsb zv zd)) = status A)
   \<and> (rt A = RpiRt \<longrightarrow> status (run_cmds B A cs) = status A)
   \<and> status (run_cmds B (EthAudioApi_init RpiRt RpiRt_init) cs) = init_status"
proof -
  have m: "\<not> fst (rt_set_power RpiRt r a u) \<and> \<not> fst (rt_set_source RpiRt r k dg)
      \<and> \<not> fst (rt_set_zone RpiRt r k sid m sb v d)"
    by (simp add: RpiRt_def RpiRt_set_power_def RpiRt_set_source_def RpiRt_set_zone_def)
  have p: "rt A = RpiRt \<longrightarrow>
        fst (set_power A pa pu) \<noteq> None \<and> status (snd (set_power A pa pu)) = status A"
    using set_power_fail [OF RpiRt_power_fails, of A pa pu] set_power_err [of A pa pu] by blast
  have s: "rt A = RpiRt \<longrightarrow>
        fst (set_source B A i n sd) \<noteq> None \<and> status (snd (set_source B A i n sd)) = status A"
    using set_source_fail [OF RpiRt_source_fails, of A B i n sd] set_source_err [of B A i n sd]
    by blast
  have z: "rt A = RpiRt \<longrightarrow>
        fst (set_zone B A j zn zs zm zsb zv zd) \<noteq> None
        \<and> status (snd (set_zone B A j zn zs zm zsb zv zd)) = status A"
    using set_zone_fail [OF RpiRt_zone_fails, of A B j zn zs zm zsb zv zd]
      set_zone_err [of B A j zn zs zm zsb zv zd]
    by blast
  have c: "rt A = RpiRt \<longrightarrow> status (run_cmds B A cs) = status A"
    using RpiRt_run_cmds_status [of A B cs] by blast
  have i: "status (run_cmds B (EthAudioApi_init RpiRt RpiRt_init) cs) = init_status"
    using RpiRt_run_cmds_status [of "EthAudioApi_init RpiRt RpiRt_init" B cs]
    by (simp add: EthAudioApi_init_def)
  from m p s z c i show ?thesis by (intro conjI) simp_all
qed

theorem rpi_runtime_always_fails_witness:
  "rt (EthAudioApi_init RpiRt RpiRt_init) = RpiRt
   \<and> fst (set_power (EthAudioApi_init RpiRt RpiRt_init) (PBool True) (PBool True)) \<noteq> None
   \<and> fst (set_source builtins0 (EthAudioApi_init RpiRt RpiRt_init) (PInt 2) PNone (PBool True))
       \<noteq> None
   \<and> fst (set_zone builtins0 (EthAudioApi_init RpiRt RpiRt_init)
        (PInt 3) PNone (PInt 1) PNone PNone (PInt (- 10)) PNone) \<noteq> None
   \<and> status (run_cmds builtins0 (EthAudioApi_init RpiRt RpiRt_init)
        [[''command'' \<mapsto> PStr ''set_power'', ''audio_power'' \<mapsto> PBool True,
          ''usb_power'' \<mapsto> PBool True],
         [''command'' \<mapsto> PStr ''set_source'', ''id'' \<mapsto> PInt 2, ''name'' \<mapsto> PStr ''radio'',
          ''digital'' \<mapsto> PBool True]]) = init_status"
  using rpi_runtime_always_fails [where A = "EthAudioApi_init RpiRt RpiRt_init"
    and B = builtins0 and pa = "PBool True" and pu = "PBool True"
    and i = "PInt 2" and n = PNone and sd = "PBool True"
    and j = "PInt 3" and zn = PNone and zs = "PInt 1" and zm = PNone and zsb = PNone
    and zv = "PInt (- 10)" and zd = PNone
    and cs = "[[''command'' \<mapsto> PStr ''set_power'', ''audio_power'' \<mapsto> PBool True,
          ''usb_power'' \<mapsto> PBool True],
         [''command'' \<mapsto> PStr ''set_source'', ''id'' \<mapsto> PInt 2, ''name'' \<mapsto> PStr ''radio'',
          ''digital'' \<mapsto> PBool True]]"]
  by (simp add: EthAudioApi_init_def)

end
